theory Spec2Isabelle
  imports Complex_Main
begin

section \<open>Objects, references and the heap\<close>

text \<open>
  The program keeps its geometry in JavaScript objects that are shared by reference:
  one \<^verbatim>\<open>Node\<close> object is held by the \<^verbatim>\<open>nodes\<close> array of the mesh and by every
  \<^verbatim>\<open>Edge\<close> built on it, and the rotations assign to its fields in place. An object
  is therefore a reference into a heap of \<^verbatim>\<open>Node\<close> values, and every method that
  assigns to a field returns the updated heap. Coordinates are JavaScript numbers;
  they are taken here as real numbers, with \<^verbatim>\<open>Math.cos\<close>, \<^verbatim>\<open>Math.sin\<close> and
  \<^verbatim>\<open>Math.PI\<close> as \<^term>\<open>cos\<close>, \<^term>\<open>sin\<close> and \<^term>\<open>pi\<close>.
\<close>

type_synonym ref = nat

record Node =
  x :: real
  y :: real
  z :: real

record Edge =
  node1 :: ref
  node2 :: ref

record Mesh =
  nodes :: "ref list"
  edges :: "Edge list"

type_synonym heap = "ref \<Rightarrow> Node"

section \<open>Mesh.rotateY and Mesh.rotateX\<close>

text \<open>
  One pass of the loop body of \<^verbatim>\<open>rotateY\<close>: both new values are computed from the
  fields as they are, then the two assignments follow one after the other.
\<close>

definition rotateY_body :: "real \<Rightarrow> ref \<Rightarrow> heap \<Rightarrow> heap" where
  "rotateY_body theta r h =
     (let x2 = x (h r) * cos theta - z (h r) * sin theta;
          z2 = z (h r) * cos theta + x (h r) * sin theta;
          h1 = h(r := (h r)\<lparr>x := x2\<rparr>);
          h2 = h1(r := (h1 r)\<lparr>z := z2\<rparr>)
      in h2)"

primrec rotateY_loop :: "real \<Rightarrow> ref list \<Rightarrow> heap \<Rightarrow> heap" where
  "rotateY_loop theta [] h = h"
| "rotateY_loop theta (r # rs) h = rotateY_loop theta rs (rotateY_body theta r h)"

definition rotateY :: "Mesh \<Rightarrow> real \<Rightarrow> heap \<Rightarrow> heap" where
  "rotateY m theta h = rotateY_loop theta (nodes m) h"

definition rotateX_body :: "real \<Rightarrow> ref \<Rightarrow> heap \<Rightarrow> heap" where
  "rotateX_body theta r h =
     (let z2 = z (h r) * cos theta - y (h r) * sin theta;
          y2 = y (h r) * cos theta + z (h r) * sin theta;
          h1 = h(r := (h r)\<lparr>z := z2\<rparr>);
          h2 = h1(r := (h1 r)\<lparr>y := y2\<rparr>)
      in h2)"

primrec rotateX_loop :: "real \<Rightarrow> ref list \<Rightarrow> heap \<Rightarrow> heap" where
  "rotateX_loop theta [] h = h"
| "rotateX_loop theta (r # rs) h = rotateX_loop theta rs (rotateX_body theta r h)"

definition rotateX :: "Mesh \<Rightarrow> real \<Rightarrow> heap \<Rightarrow> heap" where
  "rotateX m theta h = rotateX_loop theta (nodes m) h"

section \<open>Globals\<close>

record Colors =
  node :: string
  edge :: string

definition colors :: Colors where
  "colors = \<lparr>node = ''green'', edge = ''blue''\<rparr>"

definition NODE_SIZE :: real where
  "NODE_SIZE = 3"

definition PIXELS_PER_UNIT :: real where
  "PIXELS_PER_UNIT = 100"

definition canvas_width :: real where
  "canvas_width = 600"

definition canvas_height :: real where
  "canvas_height = 600"

section \<open>The 2D context and the drawing helpers\<close>

text \<open>
  The 2D context is an external collaborator. What the program does to it is the
  sequence of calls it makes, so a drawing function returns the calls it issues, in
  order; an assignment to \<^verbatim>\<open>fillStyle\<close> or \<^verbatim>\<open>strokeStyle\<close> is such a call.
\<close>

datatype ctx_call =
    Set_fillStyle string
  | Set_strokeStyle string
  | BeginPath
  | Arc real real real real real
  | Fill
  | MoveTo real real
  | LineTo real real
  | Stroke
  | ClearRect real real real real
  | Translate real real

definition circle :: "real \<Rightarrow> real \<Rightarrow> real \<Rightarrow> ctx_call list" where
  "circle cx cy radius = [BeginPath, Arc cx cy radius 0 (2 * pi), Fill]"

definition line :: "real \<Rightarrow> real \<Rightarrow> real \<Rightarrow> real \<Rightarrow> ctx_call list" where
  "line x1 y1 x2 y2 = [BeginPath, MoveTo x1 y1, LineTo x2 y2, Stroke]"

section \<open>Node.draw, Edge.draw and Mesh.draw\<close>

definition Node_draw :: "Node \<Rightarrow> ctx_call list" where
  "Node_draw this =
     Set_fillStyle (node colors) #
     circle (x this * PIXELS_PER_UNIT) (y this * PIXELS_PER_UNIT) NODE_SIZE"

text \<open>An edge holds references: it reads the coordinates its nodes have when it is drawn.\<close>

definition Edge_draw :: "heap \<Rightarrow> Edge \<Rightarrow> ctx_call list" where
  "Edge_draw h this =
     Set_strokeStyle (edge colors) #
     line (x (h (node1 this)) * PIXELS_PER_UNIT) (y (h (node1 this)) * PIXELS_PER_UNIT)
          (x (h (node2 this)) * PIXELS_PER_UNIT) (y (h (node2 this)) * PIXELS_PER_UNIT)"

primrec draw_edges :: "heap \<Rightarrow> Edge list \<Rightarrow> ctx_call list" where
  "draw_edges h [] = []"
| "draw_edges h (e # es) = Edge_draw h e @ draw_edges h es"

primrec draw_nodes :: "heap \<Rightarrow> ref list \<Rightarrow> ctx_call list" where
  "draw_nodes h [] = []"
| "draw_nodes h (r # rs) = Node_draw (h r) @ draw_nodes h rs"

definition Mesh_draw :: "Mesh \<Rightarrow> heap \<Rightarrow> ctx_call list" where
  "Mesh_draw m h = draw_edges h (edges m) @ draw_nodes h (nodes m)"

section \<open>The cube and the start of the script\<close>

text \<open>
  The eight \<^verbatim>\<open>new Node(...)\<close> of the script are the objects at references 0 to 7,
  in the order of the array literal; the twelve edges refer to them by these
  references.
\<close>

definition origin :: Node where
  "origin = \<lparr>x = 0, y = 0, z = 0\<rparr>"

definition cube_heap :: heap where
  "cube_heap = (\<lambda>r. origin)
     (0 := \<lparr>x = -1, y = -1, z = -1\<rparr>,
      1 := \<lparr>x = 1, y = -1, z = -1\<rparr>,
      2 := \<lparr>x = 1, y = -1, z = 1\<rparr>,
      3 := \<lparr>x = -1, y = -1, z = 1\<rparr>,
      4 := \<lparr>x = -1, y = 1, z = -1\<rparr>,
      5 := \<lparr>x = 1, y = 1, z = -1\<rparr>,
      6 := \<lparr>x = 1, y = 1, z = 1\<rparr>,
      7 := \<lparr>x = -1, y = 1, z = 1\<rparr>)"

definition cube :: Mesh where
  "cube = \<lparr>nodes = [0, 1, 2, 3, 4, 5, 6, 7],
            edges = [\<lparr>node1 = 0, node2 = 1\<rparr>, \<lparr>node1 = 0, node2 = 4\<rparr>,
                     \<lparr>node1 = 0, node2 = 3\<rparr>, \<lparr>node1 = 1, node2 = 5\<rparr>,
                     \<lparr>node1 = 1, node2 = 2\<rparr>, \<lparr>node1 = 3, node2 = 2\<rparr>,
                     \<lparr>node1 = 3, node2 = 7\<rparr>, \<lparr>node1 = 2, node2 = 6\<rparr>,
                     \<lparr>node1 = 4, node2 = 5\<rparr>, \<lparr>node1 = 5, node2 = 6\<rparr>,
                     \<lparr>node1 = 6, node2 = 7\<rparr>, \<lparr>node1 = 7, node2 = 4\<rparr>]\<rparr>"

section \<open>The event listeners\<close>

text \<open>
  The state the listeners share: the two globals, the mesh \<^verbatim>\<open>cube3D\<close> with the
  heap its nodes live in, and the calls made on the 2D context so far.
\<close>

record State =
  MOUSE_IS_PRESSED :: bool
  pMousePos :: "real \<times> real"
  cube3D :: Mesh
  store :: heap
  ctx :: "ctx_call list"

record MouseEvent =
  clientX :: real
  clientY :: real

definition start_heap :: heap where
  "start_heap = rotateX cube (pi / 4) (rotateY cube (pi / 4) cube_heap)"

definition start :: State where
  "start =
     \<lparr>MOUSE_IS_PRESSED = False, pMousePos = (0, 0), cube3D = cube, store = start_heap,
      ctx = Translate (canvas_width / 2) (canvas_width / 2) # Mesh_draw cube start_heap\<rparr>"

definition mousedown :: "State \<Rightarrow> State" where
  "mousedown st = st\<lparr>MOUSE_IS_PRESSED := True\<rparr>"

definition mouseup :: "State \<Rightarrow> State" where
  "mouseup st = st\<lparr>MOUSE_IS_PRESSED := False\<rparr>"

definition diffX :: "MouseEvent \<Rightarrow> State \<Rightarrow> real" where
  "diffX event st = clientX event - fst (pMousePos st)"

definition diffY :: "MouseEvent \<Rightarrow> State \<Rightarrow> real" where
  "diffY event st = clientY event - snd (pMousePos st)"

definition mousemove :: "MouseEvent \<Rightarrow> State \<Rightarrow> State" where
  "mousemove event st =
     (let mousePos = (clientX event, clientY event);
          st1 =
            (if MOUSE_IS_PRESSED st then
               (let h1 = rotateY (cube3D st) (diffX event st * (pi / 180)) (store st);
                    h2 = rotateX (cube3D st) (diffY event st * (pi / 180)) h1
                in st\<lparr>store := h2,
                      ctx := ctx st @
                        ClearRect (- canvas_width / 2) (- canvas_width / 2)
                          canvas_width canvas_height #
                        Mesh_draw (cube3D st) h2\<rparr>)
             else st)
      in st1\<lparr>pMousePos := mousePos\<rparr>)"

text \<open>
  Events are delivered one at a time, each listener running to its end before the
  next event.
\<close>

datatype Event = Mousedown | Mouseup | Mousemove MouseEvent

primrec dispatch :: "Event \<Rightarrow> State \<Rightarrow> State" where
  "dispatch Mousedown st = mousedown st"
| "dispatch Mouseup st = mouseup st"
| "dispatch (Mousemove event) st = mousemove event st"

primrec run :: "Event list \<Rightarrow> State \<Rightarrow> State" where
  "run [] st = st"
| "run (e # es) st = run es (dispatch e st)"

section \<open>Sequences of rotations, distances and sample meshes\<close>

text \<open>A finite sequence of \<^verbatim>\<open>rotateX\<close> and \<^verbatim>\<open>rotateY\<close> calls, made first to last.\<close>

datatype rotation = RotateX real | RotateY real

primrec rotate_call :: "Mesh \<Rightarrow> rotation \<Rightarrow> heap \<Rightarrow> heap" where
  "rotate_call m (RotateX theta) h = rotateX m theta h"
| "rotate_call m (RotateY theta) h = rotateY m theta h"

primrec rotate_calls :: "Mesh \<Rightarrow> rotation list \<Rightarrow> heap \<Rightarrow> heap" where
  "rotate_calls m [] h = h"
| "rotate_calls m (c # cs) h = rotate_calls m cs (rotate_call m c h)"

definition distance :: "Node \<Rightarrow> Node \<Rightarrow> real" where
  "distance p q = sqrt ((x p - x q)\<^sup>2 + (y p - y q)\<^sup>2 + (z p - z q)\<^sup>2)"

text \<open>
  Small meshes without edges: one that lists the object at reference 0 once, one that
  lists it twice (the same object at two indices of the array), and one that lists it
  twice beside the object at reference 1.
\<close>

definition one_node :: Mesh where
  "one_node = \<lparr>nodes = [0], edges = []\<rparr>"

definition same_node_twice :: Mesh where
  "same_node_twice = \<lparr>nodes = [0, 0], edges = []\<rparr>"

definition same_node_twice_and_other :: Mesh where
  "same_node_twice_and_other = \<lparr>nodes = [0, 0, 1], edges = []\<rparr>"

definition at_x :: heap where
  "at_x = (\<lambda>r. \<lparr>x = 1, y = 0, z = 0\<rparr>)"

definition at_y :: heap where
  "at_y = (\<lambda>r. \<lparr>x = 0, y = 1, z = 0\<rparr>)"

definition at_x_and_z :: heap where
  "at_x_and_z = (\<lambda>r. \<lparr>x = 0, y = 0, z = 1\<rparr>)(0 := \<lparr>x = 1, y = 0, z = 0\<rparr>)"

text \<open>
  A state in the middle of a drag, with the previous pointer position at (100, 100),
  and the events that press or release the button without moving the pointer.
\<close>

definition dragging :: State where
  "dragging =
     \<lparr>MOUSE_IS_PRESSED = True, pMousePos = (100, 100), cube3D = one_node, store = at_x,
      ctx = []\<rparr>"

fun button :: "Event \<Rightarrow> bool" where
  "button Mousedown = True"
| "button Mouseup = True"
| "button (Mousemove event) = False"

section \<open>The rotation of one point\<close>

definition turnY :: "real \<Rightarrow> Node \<Rightarrow> Node" where
  "turnY theta p =
     \<lparr>x = x p * cos theta - z p * sin theta, y = y p,
      z = z p * cos theta + x p * sin theta\<rparr>"

definition turnX :: "real \<Rightarrow> Node \<Rightarrow> Node" where
  "turnX theta p =
     \<lparr>x = x p, y = y p * cos theta + z p * sin theta,
      z = z p * cos theta - y p * sin theta\<rparr>"

lemma rotateY_body_eq: "rotateY_body theta r h = h(r := turnY theta (h r))"
  by (simp add: rotateY_body_def turnY_def Let_def fun_eq_iff)

lemma rotateX_body_eq: "rotateX_body theta r h = h(r := turnX theta (h r))"
  by (simp add: rotateX_body_def turnX_def Let_def fun_eq_iff)

lemma turnY_zero: "turnY 0 p = p"
  by (simp add: turnY_def)

lemma turnX_zero: "turnX 0 p = p"
  by (simp add: turnX_def)

lemma turnY_add: "turnY b (turnY a p) = turnY (a + b) p"
  by (simp add: turnY_def cos_add sin_add algebra_simps)

lemma turnX_add: "turnX b (turnX a p) = turnX (a + b) p"
  by (simp add: turnX_def cos_add sin_add algebra_simps)

text \<open>
  A reference listed \<open>k\<close> times in the array is visited \<open>k\<close> times by the loop, and
  each visit turns the object once more.
\<close>

lemma rotateY_loop_count:
  "rotateY_loop theta rs h r = turnY (real (count_list rs r) * theta) (h r)"
proof (induction rs arbitrary: h)
  case Nil
  show ?case by (simp add: turnY_zero)
next
  case (Cons a rs)
  show ?case
    by (simp add: Cons.IH rotateY_body_eq turnY_add algebra_simps)
qed

lemma rotateX_loop_count:
  "rotateX_loop theta rs h r = turnX (real (count_list rs r) * theta) (h r)"
proof (induction rs arbitrary: h)
  case Nil
  show ?case by (simp add: turnX_zero)
next
  case (Cons a rs)
  show ?case
    by (simp add: Cons.IH rotateX_body_eq turnX_add algebra_simps)
qed

lemma rotateY_count:
  "rotateY m theta h r = turnY (real (count_list (nodes m) r) * theta) (h r)"
  by (simp add: rotateY_def rotateY_loop_count)

lemma rotateX_count:
  "rotateX m theta h r = turnX (real (count_list (nodes m) r) * theta) (h r)"
  by (simp add: rotateX_def rotateX_loop_count)

section \<open>Rotation about the Y axis\<close>

text \<open>
  Claim C1, as amended. For every mesh and every angle \<open>theta\<close>, \<^verbatim>\<open>rotateY(theta)\<close>
  leaves the \<open>y\<close> coordinate of every object as it was, whether the \<^verbatim>\<open>nodes\<close> array
  lists the object once, several times or not at all. In every object \<open>r\<close> that the
  array lists exactly once it leaves the coordinates \<open>x' = x cos theta - z sin theta\<close>
  and \<open>z' = z cos theta + x sin theta\<close>, both computed from the coordinates \<open>x\<close> and \<open>z\<close>
  the object had before the call.
\<close>

theorem rotateY_listed_once:
  "y (rotateY m theta h r) = y (h r) \<and>
   (count_list (nodes m) r = 1 \<longrightarrow>
      x (rotateY m theta h r) = x (h r) * cos theta - z (h r) * sin theta \<and>
      z (rotateY m theta h r) = z (h r) * cos theta + x (h r) * sin theta)"
  by (simp add: rotateY_count turnY_def)

theorem rotateY_listed_once_witness:
  "count_list (nodes one_node) 0 = 1 \<and>
   x (rotateY one_node (pi / 2) at_x 0) = 0 \<and>
   z (rotateY one_node (pi / 2) at_x 0) = 1 \<and>
   y (rotateY one_node (pi / 2) at_x 0) = 0 \<and>
   y (rotateY same_node_twice (pi / 2) at_x 0) = 0"
  using rotateY_listed_once [of one_node "pi / 2" at_x 0]
    rotateY_listed_once [of same_node_twice "pi / 2" at_x 0]
  by (simp add: one_node_def at_x_def)

text \<open>
  The claim as written, for every mesh, fails where the array holds the same object
  at two indices: the loop visits it twice, and the second visit starts from the
  coordinates the first one stored. The object at (1, 0, 0) ends at (-1, 0, 0), where
  the equations applied to its prior coordinates give \<open>x' = 0\<close> and \<open>z' = 1\<close>.
\<close>

theorem rotateY_same_node_twice_counterexample:
  "rotateY same_node_twice (pi / 2) at_x 0 = \<lparr>x = -1, y = 0, z = 0\<rparr> \<and>
   x (at_x 0) * cos (pi / 2) - z (at_x 0) * sin (pi / 2) = 0 \<and>
   z (at_x 0) * cos (pi / 2) + x (at_x 0) * sin (pi / 2) = 1"
  by (simp add: rotateY_def rotateY_body_def same_node_twice_def at_x_def Let_def)

section \<open>Rotation about the X axis\<close>

text \<open>
  Claim C2, as amended. For every mesh and every angle \<open>theta\<close>, \<^verbatim>\<open>rotateX(theta)\<close>
  leaves the \<open>x\<close> coordinate of every object as it was, whether the \<^verbatim>\<open>nodes\<close> array
  lists the object once, several times or not at all. In every object \<open>r\<close> that the
  array lists exactly once it leaves the coordinates \<open>z' = z cos theta - y sin theta\<close>
  and \<open>y' = y cos theta + z sin theta\<close>, both computed from the coordinates \<open>z\<close> and \<open>y\<close>
  the object had before the call. For a mesh with a single point at (0, 1, 0),
  \<^verbatim>\<open>rotateX(pi/2)\<close> moves the point to (0, 0, -1).
\<close>

theorem rotateX_listed_once:
  "x (rotateX m theta h r) = x (h r) \<and>
   (count_list (nodes m) r = 1 \<longrightarrow>
      z (rotateX m theta h r) = z (h r) * cos theta - y (h r) * sin theta \<and>
      y (rotateX m theta h r) = y (h r) * cos theta + z (h r) * sin theta) \<and>
   rotateX one_node (pi / 2) at_y 0 = \<lparr>x = 0, y = 0, z = -1\<rparr>"
  by (simp add: rotateX_count turnX_def one_node_def at_y_def)

theorem rotateX_listed_once_witness:
  "count_list (nodes one_node) 0 = 1 \<and>
   z (rotateX one_node pi at_y 0) = 0 \<and>
   y (rotateX one_node pi at_y 0) = -1 \<and>
   x (rotateX one_node pi at_y 0) = 0 \<and>
   x (rotateX same_node_twice (pi / 2) at_y 0) = 0"
  using rotateX_listed_once [of one_node pi at_y 0]
    rotateX_listed_once [of same_node_twice "pi / 2" at_y 0]
  by (simp add: one_node_def at_y_def)

text \<open>
  The claim as written fails twice. Its example is not what its own equations give:
  from (0, 1, 0) the quarter turn \<^verbatim>\<open>rotateX(pi/2)\<close> computes
  \<open>z' = 0 * cos (pi/2) - 1 * sin (pi/2) = -1\<close>, so the point ends at (0, 0, -1), not at
  (0, 0, 1). And an object that the array holds at two indices is turned twice: from
  (0, 1, 0) it ends at (0, -1, 0), where the equations applied to its prior coordinates
  give \<open>z' = -1\<close> and \<open>y' = 0\<close>.
\<close>

theorem rotateX_counterexample:
  "rotateX one_node (pi / 2) at_y 0 = \<lparr>x = 0, y = 0, z = -1\<rparr> \<and>
   rotateX one_node (pi / 2) at_y 0 \<noteq> \<lparr>x = 0, y = 0, z = 1\<rparr> \<and>
   rotateX same_node_twice (pi / 2) at_y 0 = \<lparr>x = 0, y = -1, z = 0\<rparr> \<and>
   z (at_y 0) * cos (pi / 2) - y (at_y 0) * sin (pi / 2) = -1 \<and>
   y (at_y 0) * cos (pi / 2) + z (at_y 0) * sin (pi / 2) = 0"
  by (simp add: rotateX_def rotateX_body_def one_node_def same_node_twice_def at_y_def Let_def)

section \<open>Composition of rotations\<close>

text \<open>
  Claim C10. For every mesh and all angles \<open>a\<close> and \<open>b\<close>, \<^verbatim>\<open>rotateY(a)\<close> followed by
  \<^verbatim>\<open>rotateY(b)\<close> leaves every object with the coordinates that \<^verbatim>\<open>rotateY(a + b)\<close>
  alone leaves, and likewise for \<^verbatim>\<open>rotateX\<close>, over the real numbers. This holds for
  every mesh, also one that lists an object several times.
\<close>

theorem rotation_additive:
  "rotateY m b (rotateY m a h) = rotateY m (a + b) h \<and>
   rotateX m b (rotateX m a h) = rotateX m (a + b) h"
  by (simp add: fun_eq_iff rotateY_count rotateX_count turnY_add turnX_add algebra_simps)

text \<open>
  Claim C7. Rotations about different axes do not commute: on the mesh with the single
  point (1, 0, 0), \<^verbatim>\<open>rotateY(pi/2)\<close> followed by \<^verbatim>\<open>rotateX(pi/2)\<close> ends at (0, 1, 0),
  and \<^verbatim>\<open>rotateX(pi/2)\<close> followed by \<^verbatim>\<open>rotateY(pi/2)\<close> ends at (0, 0, 1). So there are
  angles \<open>a\<close> and \<open>b\<close>, a mesh and its coordinates for which the two orders differ.
\<close>

theorem rotation_not_commutative:
  "rotateX one_node (pi / 2) (rotateY one_node (pi / 2) at_x) 0 = \<lparr>x = 0, y = 1, z = 0\<rparr> \<and>
   rotateY one_node (pi / 2) (rotateX one_node (pi / 2) at_x) 0 = \<lparr>x = 0, y = 0, z = 1\<rparr> \<and>
   (\<exists>a b m h. rotateX m b (rotateY m a h) \<noteq> rotateY m a (rotateX m b h))"
proof -
  have yx: "rotateX one_node (pi / 2) (rotateY one_node (pi / 2) at_x) 0 =
            \<lparr>x = 0, y = 1, z = 0\<rparr>"
    by (simp add: rotateX_def rotateY_def rotateX_body_def rotateY_body_def one_node_def
          at_x_def Let_def)
  have xy: "rotateY one_node (pi / 2) (rotateX one_node (pi / 2) at_x) 0 =
            \<lparr>x = 0, y = 0, z = 1\<rparr>"
    by (simp add: rotateX_def rotateY_def rotateX_body_def rotateY_body_def one_node_def
          at_x_def Let_def)
  have "rotateX one_node (pi / 2) (rotateY one_node (pi / 2) at_x) \<noteq>
        rotateY one_node (pi / 2) (rotateX one_node (pi / 2) at_x)"
  proof
    assume "rotateX one_node (pi / 2) (rotateY one_node (pi / 2) at_x) =
            rotateY one_node (pi / 2) (rotateX one_node (pi / 2) at_x)"
    then have "rotateX one_node (pi / 2) (rotateY one_node (pi / 2) at_x) 0 =
               rotateY one_node (pi / 2) (rotateX one_node (pi / 2) at_x) 0"
      by simp
    with yx xy show False by simp
  qed
  then show ?thesis using yx xy by blast
qed

section \<open>Rigidity\<close>

lemma square_sum:
  fixes a b c s :: real
  shows "(a * c - b * s)\<^sup>2 + (b * c + a * s)\<^sup>2 = (a\<^sup>2 + b\<^sup>2) * (s\<^sup>2 + c\<^sup>2)"
  by (simp add: power2_eq_square algebra_simps)

lemma turn_square:
  fixes a b :: real
  shows "(a * cos t - b * sin t)\<^sup>2 + (b * cos t + a * sin t)\<^sup>2 = a\<^sup>2 + b\<^sup>2"
  by (simp add: square_sum)

lemma distance_turnY: "distance (turnY a p) (turnY a q) = distance p q"
proof -
  have "(x p * cos a - z p * sin a - (x q * cos a - z q * sin a))\<^sup>2 +
        (z p * cos a + x p * sin a - (z q * cos a + x q * sin a))\<^sup>2 =
        ((x p - x q) * cos a - (z p - z q) * sin a)\<^sup>2 +
        ((z p - z q) * cos a + (x p - x q) * sin a)\<^sup>2"
    by (simp add: algebra_simps)
  also have "\<dots> = (x p - x q)\<^sup>2 + (z p - z q)\<^sup>2"
    by (rule turn_square)
  finally show ?thesis
    by (simp add: distance_def turnY_def)
qed

lemma distance_turnX: "distance (turnX a p) (turnX a q) = distance p q"
proof -
  have "(y p * cos a + z p * sin a - (y q * cos a + z q * sin a))\<^sup>2 +
        (z p * cos a - y p * sin a - (z q * cos a - y q * sin a))\<^sup>2 =
        ((z p - z q) * cos a - (y p - y q) * sin a)\<^sup>2 +
        ((y p - y q) * cos a + (z p - z q) * sin a)\<^sup>2"
    by (simp add: algebra_simps)
  also have "\<dots> = (z p - z q)\<^sup>2 + (y p - y q)\<^sup>2"
    by (rule turn_square)
  finally show ?thesis
    by (simp add: distance_def turnX_def)
qed

lemma distance_rotate_call:
  assumes "count_list (nodes m) p = count_list (nodes m) q"
  shows "distance (rotate_call m c h p) (rotate_call m c h q) = distance (h p) (h q)"
  using assms
  by (cases c) (simp_all add: rotateY_count rotateX_count distance_turnY distance_turnX)

text \<open>
  Claim C3, as amended. For every mesh, every two objects \<open>p\<close> and \<open>q\<close> that the
  \<^verbatim>\<open>nodes\<close> array lists equally often (so any two points of a mesh that lists each
  of its points once), and every finite sequence of \<^verbatim>\<open>rotateX\<close> and \<^verbatim>\<open>rotateY\<close>
  calls with any angles, the Euclidean distance between the two after the calls is
  their distance before, over the real numbers.
\<close>

theorem rotations_rigid:
  "count_list (nodes m) p = count_list (nodes m) q \<Longrightarrow>
   distance (rotate_calls m cs h p) (rotate_calls m cs h q) = distance (h p) (h q)"
proof (induction cs arbitrary: h)
  case Nil
  show ?case by simp
next
  case (Cons c cs)
  have "distance (rotate_calls m (c # cs) h p) (rotate_calls m (c # cs) h q) =
        distance (rotate_call m c h p) (rotate_call m c h q)"
    by (simp add: Cons.IH [OF Cons.prems])
  also have "\<dots> = distance (h p) (h q)"
    by (rule distance_rotate_call [OF Cons.prems])
  finally show ?case .
qed

theorem rotations_rigid_witness:
  "count_list (nodes cube) 0 = count_list (nodes cube) 6 \<and>
   distance (rotate_calls cube [RotateY (pi / 4), RotateX (pi / 4)] cube_heap 0)
            (rotate_calls cube [RotateY (pi / 4), RotateX (pi / 4)] cube_heap 6) = sqrt 12"
  using rotations_rigid [of cube 0 6 "[RotateY (pi / 4), RotateX (pi / 4)]" cube_heap]
  by (simp add: cube_def cube_heap_def distance_def)

text \<open>
  The claim as written, for every pair of points of every mesh, fails where one of the
  two objects is held at two indices of the array and the other at one: a call turns
  the first twice as far as the second. With (1, 0, 0) listed twice and (0, 0, 1)
  listed once, \<^verbatim>\<open>rotateY(pi/2)\<close> brings both to (-1, 0, 0): their distance falls from
  \<open>sqrt 2\<close> to 0.
\<close>

theorem rotations_rigid_counterexample:
  "distance (at_x_and_z 0) (at_x_and_z 1) = sqrt 2 \<and>
   distance (rotate_calls same_node_twice_and_other [RotateY (pi / 2)] at_x_and_z 0)
            (rotate_calls same_node_twice_and_other [RotateY (pi / 2)] at_x_and_z 1) = 0"
  by (simp add: distance_def at_x_and_z_def same_node_twice_and_other_def rotateY_def
        rotateY_body_def Let_def)

section \<open>A full turn\<close>

lemma turnY_turns: "turnY (real k * (2 * pi)) p = p"
proof -
  have eq: "real k * (2 * pi) = 2 * real k * pi" by simp
  have c: "cos (real k * (2 * pi)) = 1" unfolding eq by (rule cos_2npi)
  have s: "sin (real k * (2 * pi)) = 0" unfolding eq by (rule sin_2npi)
  show ?thesis by (simp add: turnY_def c s)
qed

lemma funpow_rotateY:
  "(rotateY m theta ^^ N) h r = turnY (real (count_list (nodes m) r) * (real N * theta)) (h r)"
proof (induction N)
  case 0
  show ?case by (simp add: turnY_zero)
next
  case (Suc N)
  have "(rotateY m theta ^^ Suc N) h r = rotateY m theta ((rotateY m theta ^^ N) h) r"
    by simp
  also have "\<dots> = turnY (real (count_list (nodes m) r) * theta) ((rotateY m theta ^^ N) h r)"
    by (rule rotateY_count)
  also have "\<dots> = turnY (real (count_list (nodes m) r) * theta)
                        (turnY (real (count_list (nodes m) r) * (real N * theta)) (h r))"
    by (simp only: Suc.IH)
  also have "\<dots> = turnY (real (count_list (nodes m) r) * (real (Suc N) * theta)) (h r)"
    by (simp add: turnY_add algebra_simps)
  finally show ?case .
qed

text \<open>
  Claim C8. For every mesh, every positive integer \<open>N\<close> and every angle \<open>theta\<close> with
  \<open>N * theta = 2 pi\<close>, \<open>N\<close> calls of \<^verbatim>\<open>rotateY(theta)\<close> in succession leave every object
  with the coordinates it started from, over the real numbers. This holds for every
  mesh: an object listed \<open>k\<close> times is turned by \<open>k\<close> full turns.
\<close>

theorem full_turn:
  "0 < N \<Longrightarrow> real N * theta = 2 * pi \<Longrightarrow> (rotateY m theta ^^ N) h = h"
  by (simp add: fun_eq_iff funpow_rotateY turnY_turns)

theorem full_turn_witness:
  "(0::nat) < 4 \<and> real 4 * (pi / 2) = 2 * pi \<and>
   (rotateY same_node_twice (pi / 2) ^^ 4) at_x = at_x"
  using full_turn [of 4 "pi / 2" same_node_twice at_x] by simp

section \<open>Drawing\<close>

lemma draw_edges_lines:
  "draw_edges h es =
     concat (map (\<lambda>e. Set_strokeStyle (edge colors) #
                        line (x (h (node1 e)) * PIXELS_PER_UNIT) (y (h (node1 e)) * PIXELS_PER_UNIT)
                             (x (h (node2 e)) * PIXELS_PER_UNIT) (y (h (node2 e)) * PIXELS_PER_UNIT))
                 es)"
  by (induction es) (simp_all add: Edge_draw_def)

lemma draw_nodes_circles:
  "draw_nodes h rs =
     concat (map (\<lambda>r. Set_fillStyle (node colors) #
                        circle (x (h r) * PIXELS_PER_UNIT) (y (h r) * PIXELS_PER_UNIT) NODE_SIZE)
                 rs)"
  by (induction rs) (simp_all add: Node_draw_def)

lemma draw_edges_strokes:
  "filter (\<lambda>c. c = Stroke \<or> c = Fill) (draw_edges h es) = replicate (length es) Stroke"
  by (induction es) (simp_all add: Edge_draw_def line_def)

lemma draw_nodes_fills:
  "filter (\<lambda>c. c = Stroke \<or> c = Fill) (draw_nodes h rs) = replicate (length rs) Fill"
  by (induction rs) (simp_all add: Node_draw_def circle_def)

lemma Node_draw_z: "Node_draw (p\<lparr>z := d\<rparr>) = Node_draw p"
  by (simp add: Node_draw_def)

lemma Edge_draw_z: "Edge_draw (\<lambda>r. (h r)\<lparr>z := ds r\<rparr>) e = Edge_draw h e"
  by (simp add: Edge_draw_def)

lemma draw_edges_z: "draw_edges (\<lambda>r. (h r)\<lparr>z := ds r\<rparr>) es = draw_edges h es"
  by (induction es) (simp_all add: Edge_draw_z)

lemma draw_nodes_z: "draw_nodes (\<lambda>r. (h r)\<lparr>z := ds r\<rparr>) rs = draw_nodes h rs"
  by (induction rs) (simp_all add: Node_draw_z)

text \<open>
  Claim C4. The projection discards depth. The circle drawn for a point is centred at
  \<open>(x * PIXELS_PER_UNIT, y * PIXELS_PER_UNIT)\<close> of the point's coordinates, and the line
  drawn for an edge runs between these positions of its two endpoints, read from the
  objects as they are when the edge is drawn; \<open>z\<close> is not read. Hence giving any point
  another \<open>z\<close>, or all objects of the heap other \<open>z\<close> values, changes no call that
  \<^verbatim>\<open>Node.draw\<close>, \<^verbatim>\<open>Edge.draw\<close> or \<^verbatim>\<open>Mesh.draw\<close> makes.
\<close>

theorem projection_discards_depth:
  "Node_draw p =
     [Set_fillStyle ''green'', BeginPath,
      Arc (x p * PIXELS_PER_UNIT) (y p * PIXELS_PER_UNIT) 3 0 (2 * pi), Fill] \<and>
   Edge_draw h e =
     [Set_strokeStyle ''blue'', BeginPath,
      MoveTo (x (h (node1 e)) * PIXELS_PER_UNIT) (y (h (node1 e)) * PIXELS_PER_UNIT),
      LineTo (x (h (node2 e)) * PIXELS_PER_UNIT) (y (h (node2 e)) * PIXELS_PER_UNIT), Stroke] \<and>
   Node_draw (p\<lparr>z := d\<rparr>) = Node_draw p \<and>
   Edge_draw (\<lambda>r. (h r)\<lparr>z := ds r\<rparr>) e = Edge_draw h e \<and>
   Mesh_draw m (\<lambda>r. (h r)\<lparr>z := ds r\<rparr>) = Mesh_draw m h"
proof -
  have "Node_draw p =
     [Set_fillStyle ''green'', BeginPath,
      Arc (x p * PIXELS_PER_UNIT) (y p * PIXELS_PER_UNIT) 3 0 (2 * pi), Fill]"
    by (simp add: Node_draw_def circle_def colors_def NODE_SIZE_def)
  moreover have "Edge_draw h e =
     [Set_strokeStyle ''blue'', BeginPath,
      MoveTo (x (h (node1 e)) * PIXELS_PER_UNIT) (y (h (node1 e)) * PIXELS_PER_UNIT),
      LineTo (x (h (node2 e)) * PIXELS_PER_UNIT) (y (h (node2 e)) * PIXELS_PER_UNIT), Stroke]"
    by (simp add: Edge_draw_def line_def colors_def)
  moreover have "Mesh_draw m (\<lambda>r. (h r)\<lparr>z := ds r\<rparr>) = Mesh_draw m h"
    by (simp add: Mesh_draw_def draw_edges_z draw_nodes_z)
  ultimately show ?thesis
    using Node_draw_z Edge_draw_z by blast
qed

text \<open>
  Claim C5. \<^verbatim>\<open>Mesh.draw\<close> makes one \<^verbatim>\<open>line\<close> call per edge, in the order of the
  \<^verbatim>\<open>edges\<close> array, and after them one \<^verbatim>\<open>circle\<close> call per point, in the order of the
  \<^verbatim>\<open>nodes\<close> array, each behind the assignment of its colour. Among the calls that put
  ink on the surface, all strokes of lines come before all fills of circles: one
  stroke per edge, then one fill per point.
\<close>

theorem draw_order:
  "Mesh_draw m h =
     concat (map (\<lambda>e. Set_strokeStyle (edge colors) #
                        line (x (h (node1 e)) * PIXELS_PER_UNIT) (y (h (node1 e)) * PIXELS_PER_UNIT)
                             (x (h (node2 e)) * PIXELS_PER_UNIT) (y (h (node2 e)) * PIXELS_PER_UNIT))
                 (edges m)) @
     concat (map (\<lambda>r. Set_fillStyle (node colors) #
                        circle (x (h r) * PIXELS_PER_UNIT) (y (h r) * PIXELS_PER_UNIT) NODE_SIZE)
                 (nodes m)) \<and>
   filter (\<lambda>c. c = Stroke \<or> c = Fill) (Mesh_draw m h) =
     replicate (length (edges m)) Stroke @ replicate (length (nodes m)) Fill"
proof
  show "Mesh_draw m h =
     concat (map (\<lambda>e. Set_strokeStyle (edge colors) #
                        line (x (h (node1 e)) * PIXELS_PER_UNIT) (y (h (node1 e)) * PIXELS_PER_UNIT)
                             (x (h (node2 e)) * PIXELS_PER_UNIT) (y (h (node2 e)) * PIXELS_PER_UNIT))
                 (edges m)) @
     concat (map (\<lambda>r. Set_fillStyle (node colors) #
                        circle (x (h r) * PIXELS_PER_UNIT) (y (h r) * PIXELS_PER_UNIT) NODE_SIZE)
                 (nodes m))"
    unfolding Mesh_draw_def by (simp only: draw_edges_lines draw_nodes_circles)
  show "filter (\<lambda>c. c = Stroke \<or> c = Fill) (Mesh_draw m h) =
     replicate (length (edges m)) Stroke @ replicate (length (nodes m)) Fill"
    by (simp add: Mesh_draw_def draw_edges_strokes draw_nodes_fills)
qed

section \<open>The mousemove listener\<close>

text \<open>
  Claim C6. A \<^verbatim>\<open>mousemove\<close> event that arrives while the button is pressed, at
  \<open>(dx, dy)\<close> from the previous pointer position, leaves the heap as one call of
  \<^verbatim>\<open>rotateY(dx * pi / 180)\<close> followed by one call of \<^verbatim>\<open>rotateX(dy * pi / 180)\<close> on
  the mesh leaves it; after them the listener clears the canvas and draws the mesh
  with the rotated coordinates, and it stores the event's position. A move from
  (100, 100) to (110, 105) makes the calls \<^verbatim>\<open>rotateY(10 * pi / 180)\<close> and then
  \<^verbatim>\<open>rotateX(5 * pi / 180)\<close>.
\<close>

theorem mousemove_pressed:
  "MOUSE_IS_PRESSED st \<Longrightarrow>
   store (mousemove event st) =
     rotateX (cube3D st) ((clientY event - snd (pMousePos st)) * (pi / 180))
       (rotateY (cube3D st) ((clientX event - fst (pMousePos st)) * (pi / 180)) (store st)) \<and>
   ctx (mousemove event st) =
     ctx st @ [ClearRect (- 300) (- 300) 600 600] @
     Mesh_draw (cube3D st) (store (mousemove event st)) \<and>
   pMousePos (mousemove event st) = (clientX event, clientY event) \<and>
   MOUSE_IS_PRESSED (mousemove event st) \<and>
   cube3D (mousemove event st) = cube3D st \<and>
   store (mousemove \<lparr>clientX = 110, clientY = 105\<rparr> (st\<lparr>pMousePos := (100, 100)\<rparr>)) =
     rotateX (cube3D st) (5 * pi / 180) (rotateY (cube3D st) (10 * pi / 180) (store st))"
  by (simp add: mousemove_def diffX_def diffY_def Let_def canvas_width_def canvas_height_def)

theorem mousemove_pressed_witness:
  "MOUSE_IS_PRESSED dragging \<and>
   store (mousemove \<lparr>clientX = 110, clientY = 105\<rparr> dragging) =
     rotateX one_node (5 * pi / 180) (rotateY one_node (10 * pi / 180) at_x) \<and>
   pMousePos (mousemove \<lparr>clientX = 110, clientY = 105\<rparr> dragging) = (110, 105)"
  using mousemove_pressed [of dragging "\<lparr>clientX = 110, clientY = 105\<rparr>"]
  by (simp add: dragging_def)

lemma run_buttons: "list_all button es \<Longrightarrow> pMousePos (run es st) = pMousePos st"
proof (induction es arbitrary: st)
  case Nil
  show ?case by simp
next
  case (Cons e es)
  then show ?case by (cases e) (simp_all add: mousedown_def mouseup_def)
qed

text \<open>
  Claim C9, as amended. Every \<^verbatim>\<open>mousemove\<close> event, pressed or not, stores its
  position as the previous pointer position before the listener returns. Consequently
  the delta of the next \<^verbatim>\<open>mousemove\<close> event, whatever presses and releases of the
  button come in between, is the displacement of the pointer from that position: the
  first pressed move of a drag is measured from the last move before the press, and
  its delta is zero only if the pointer is still where that move left it.
\<close>

theorem previous_position:
  "pMousePos (mousemove event st) = (clientX event, clientY event) \<and>
   (list_all button es \<longrightarrow>
      diffX next_event (run es (mousemove event st)) = clientX next_event - clientX event \<and>
      diffY next_event (run es (mousemove event st)) = clientY next_event - clientY event)"
proof -
  have p: "pMousePos (mousemove event st) = (clientX event, clientY event)"
    by (simp add: mousemove_def Let_def)
  show ?thesis
    by (simp add: p diffX_def diffY_def run_buttons)
qed

theorem previous_position_witness:
  "list_all button [Mouseup, Mousedown] \<and>
   pMousePos (mousemove \<lparr>clientX = 100, clientY = 100\<rparr> start) = (100, 100) \<and>
   diffX \<lparr>clientX = 110, clientY = 105\<rparr>
     (run [Mouseup, Mousedown] (mousemove \<lparr>clientX = 100, clientY = 100\<rparr> start)) = 10 \<and>
   diffY \<lparr>clientX = 110, clientY = 105\<rparr>
     (run [Mouseup, Mousedown] (mousemove \<lparr>clientX = 100, clientY = 100\<rparr> start)) = 5"
  using previous_position [of "\<lparr>clientX = 100, clientY = 100\<rparr>" start "[Mouseup, Mousedown]"
      "\<lparr>clientX = 110, clientY = 105\<rparr>"]
  by simp

text \<open>
  The claim as written says that the first pressed move of a drag has a zero delta. It
  has the delta of the pointer's movement: after a move to (100, 100) and a press there,
  the first pressed move, to (110, 105), has the delta (10, 5), and turns the mesh.
\<close>

theorem first_pressed_move_counterexample:
  "MOUSE_IS_PRESSED (run [Mousemove \<lparr>clientX = 100, clientY = 100\<rparr>, Mousedown] start) \<and>
   diffX \<lparr>clientX = 110, clientY = 105\<rparr>
     (run [Mousemove \<lparr>clientX = 100, clientY = 100\<rparr>, Mousedown] start) = 10 \<and>
   diffY \<lparr>clientX = 110, clientY = 105\<rparr>
     (run [Mousemove \<lparr>clientX = 100, clientY = 100\<rparr>, Mousedown] start) = 5"
  by (simp add: start_def mousemove_def mousedown_def diffX_def diffY_def Let_def)

end
